theory Spec2Isabelle
  imports Complex_Main
begin

section \<open>The tracking and control loop of rypersensitivity.js\<close>

text \<open>
  A JavaScript number is modelled as a real: the model describes the runs of the program
  in which every double is finite and every operation is exact. Concrete inputs below use
  values for which double arithmetic is exact as well. A division is written with HOL's
  \<open>/\<close> where the source guards the divisor or divides by a literal; the one division
  that a claim is about (the hit rate) is tracked with \<open>js_divide\<close>.

  Each call of \<open>Date.now()\<close> and of \<open>Math.random()\<close> is a parameter of the function
  that makes it. Console output is not modelled. A field keeps the name it has in the
  source; it carries a short prefix of its class where two classes share the name or the
  name is a single letter.
\<close>

type_synonym number = real

subsection \<open>Vector3\<close>

record Vector3 =
  vx :: number
  vy :: number
  vz :: number

definition add :: "Vector3 \<Rightarrow> Vector3 \<Rightarrow> Vector3" where
  "add a v = \<lparr>vx = vx a + vx v, vy = vy a + vy v, vz = vz a + vz v\<rparr>"

definition subtract :: "Vector3 \<Rightarrow> Vector3 \<Rightarrow> Vector3" where
  "subtract a v = \<lparr>vx = vx a - vx v, vy = vy a - vy v, vz = vz a - vz v\<rparr>"

definition multiply :: "Vector3 \<Rightarrow> number \<Rightarrow> Vector3" where
  "multiply a s = \<lparr>vx = vx a * s, vy = vy a * s, vz = vz a * s\<rparr>"

definition lerp :: "Vector3 \<Rightarrow> Vector3 \<Rightarrow> number \<Rightarrow> Vector3" where
  "lerp a v t = add a (multiply (subtract v a) t)"

definition distanceTo :: "Vector3 \<Rightarrow> Vector3 \<Rightarrow> number" where
  "distanceTo a v =
     (let dx = vx a - vx v; dy = vy a - vy v; dz = vz a - vz v
      in sqrt (dx * dx + dy * dy + dz * dz))"

definition length_v :: "Vector3 \<Rightarrow> number" where
  "length_v a = sqrt (vx a * vx a + vy a * vy a + vz a * vz a)"

definition clone :: "Vector3 \<Rightarrow> Vector3" where
  "clone a = \<lparr>vx = vx a, vy = vy a, vz = vz a\<rparr>"

definition zero_v :: Vector3 where
  \<comment> \<open>\<open>new Vector3()\<close>: every component defaults to 0\<close>
  "zero_v = \<lparr>vx = 0, vy = 0, vz = 0\<rparr>"

subsection \<open>The configuration object\<close>

record config =
  dragForce :: number
  snapThreshold :: number
  velocityThreshold :: number
  maxDistance :: number
  longRangeMultiplier :: number
  maxPredictionTime :: number
  predictionWeight :: number
  kalman_R :: number
  kalman_Q :: number
  smoothingFactor :: number
  headLockOnly :: bool
  instantSwitch :: bool
  switchDelay :: number
  targetTimeout :: number
  maxTargetDistance :: number
  enableSnap :: bool
  fireOnLock :: bool
  minLockTime :: number
  fireRate :: number
  maxFireDistance :: number
  minAccuracy :: number

definition EnhancedConfig :: config where
  "EnhancedConfig =
     \<lparr>dragForce = 5, snapThreshold = 14 / 10000, velocityThreshold = 1 / 10,
      maxDistance = 99999, longRangeMultiplier = 12 / 10,
      maxPredictionTime = 150, predictionWeight = 3 / 10,
      kalman_R = 4 / 1000, kalman_Q = 1 / 100, smoothingFactor = 1 / 1000,
      headLockOnly = True, instantSwitch = False, switchDelay = 200,
      targetTimeout = 2000, maxTargetDistance = 99999, enableSnap = True,
      fireOnLock = True, minLockTime = 1 / 100, fireRate = 60,
      maxFireDistance = 99999, minAccuracy = 0\<rparr>"

subsection \<open>AdvancedKalmanFilter\<close>

text \<open>
  \<open>state\<close> is the two-element array \<open>[position, velocity]\<close> and \<open>covariance\<close> the
  array of its two rows: \<open>fst\<close> reads index 0 and \<open>snd\<close> index 1.
\<close>

record AdvancedKalmanFilter =
  kf_R :: number
  kf_Q :: number
  processNoise :: number
  state :: "number \<times> number"
  covariance :: "(number \<times> number) \<times> (number \<times> number)"
  isInitialized :: bool
  kf_lastTime :: number

definition new_AdvancedKalmanFilter :: "number \<Rightarrow> number \<Rightarrow> number \<Rightarrow> number \<Rightarrow> AdvancedKalmanFilter" where
  \<comment> \<open>the constructor; \<open>now\<close> is its reading of the clock\<close>
  "new_AdvancedKalmanFilter r q pn now =
     \<lparr>kf_R = r, kf_Q = q, processNoise = pn, state = (0, 0),
      covariance = ((1, 0), (0, 1)), isInitialized = False, kf_lastTime = now\<rparr>"

definition predict :: "AdvancedKalmanFilter \<Rightarrow> number \<Rightarrow> AdvancedKalmanFilter" where
  "predict k dt =
     (if \<not> isInitialized k then k
      else
        let newState = (fst (state k) + snd (state k) * dt, snd (state k));
            newCov =
              ((fst (fst (covariance k)) + dt * fst (snd (covariance k)) + processNoise k,
                snd (fst (covariance k)) + dt * snd (snd (covariance k))),
               (fst (snd (covariance k)),
                snd (snd (covariance k)) + processNoise k))
        in k\<lparr>state := newState, covariance := newCov\<rparr>)"

definition update :: "AdvancedKalmanFilter \<Rightarrow> number \<Rightarrow> number \<Rightarrow> number \<times> AdvancedKalmanFilter" where
  \<comment> \<open>\<open>update k measurement now\<close> gives the returned value and the filter after the call\<close>
  "update k measurement now =
     (let currentTime = now;
          dt = (currentTime - kf_lastTime k) / 1000;
          k1 = k\<lparr>kf_lastTime := currentTime\<rparr>
      in if \<not> isInitialized k1
         then (measurement, k1\<lparr>state := (measurement, 0), isInitialized := True\<rparr>)
         else
           let k2 = predict k1 dt;
               S = fst (fst (covariance k2)) + kf_R k2;
               K = (fst (fst (covariance k2)) / S, fst (snd (covariance k2)) / S);
               residual = measurement - fst (state k2);
               k3 = k2\<lparr>state := (fst (state k2) + fst K * residual, snd (state k2))\<rparr>;
               k4 = k3\<lparr>state := (fst (state k3), snd (state k3) + snd K * residual)\<rparr>;
               newCov =
                 (((1 - fst K) * fst (fst (covariance k4)),
                   (1 - fst K) * snd (fst (covariance k4))),
                  (fst (snd (covariance k4)) - snd K * fst (fst (covariance k4)),
                   snd (snd (covariance k4)) - snd K * snd (fst (covariance k4))));
               k5 = k4\<lparr>covariance := newCov\<rparr>
           in (fst (state k5), k5))"

definition reset :: "AdvancedKalmanFilter \<Rightarrow> number \<Rightarrow> AdvancedKalmanFilter" where
  "reset k now =
     k\<lparr>state := (0, 0), covariance := ((1, 0), (0, 1)), isInitialized := False,
       kf_lastTime := now\<rparr>"

subsection \<open>EnhancedDragLock\<close>

record EnhancedDragLock =
  velocity :: Vector3
  lastPosition :: Vector3
  dl_lastTime :: number

definition new_EnhancedDragLock :: "number \<Rightarrow> EnhancedDragLock" where
  "new_EnhancedDragLock now = \<lparr>velocity = zero_v, lastPosition = zero_v, dl_lastTime = now\<rparr>"

definition applyDragLock ::
  "config \<Rightarrow> EnhancedDragLock \<Rightarrow> Vector3 \<Rightarrow> Vector3 \<Rightarrow> number \<Rightarrow> Vector3 \<times> EnhancedDragLock" where
  \<comment> \<open>the returned position and the controller after the call\<close>
  "applyDragLock cfg d currentPos targetPos deltaTime =
     (let delta = subtract targetPos currentPos;
          distance = length_v delta;
          force = (if distance > maxDistance cfg
                   then dragForce cfg * longRangeMultiplier cfg else dragForce cfg);
          targetVelocity = multiply delta force;
          d1 = d\<lparr>velocity := lerp (velocity d) targetVelocity (smoothingFactor cfg)\<rparr>;
          movement = multiply (velocity d1) deltaTime;
          next = add currentPos movement
      in if distance < snapThreshold cfg \<and>
            length_v (velocity d1) < velocityThreshold cfg \<and>
            enableSnap cfg
         then (targetPos, d1)
         else (next, d1\<lparr>lastPosition := clone next\<rparr>))"

subsection \<open>TargetPredictor\<close>

record sample =
  s_position :: Vector3
  s_time :: number

record TargetPredictor =
  positionHistory :: "sample list"
  maxHistorySize :: nat

definition new_TargetPredictor :: TargetPredictor where
  "new_TargetPredictor = \<lparr>positionHistory = [], maxHistorySize = 10\<rparr>"

definition addPosition :: "TargetPredictor \<Rightarrow> Vector3 \<Rightarrow> number \<Rightarrow> TargetPredictor" where
  "addPosition p pos timestamp =
     (let h = positionHistory p @ [\<lparr>s_position = clone pos, s_time = timestamp\<rparr>]
      in if length h > maxHistorySize p then p\<lparr>positionHistory := tl h\<rparr>
         else p\<lparr>positionHistory := h\<rparr>)"

definition slice_last :: "nat \<Rightarrow> 'a list \<Rightarrow> 'a list" where
  \<comment> \<open>\<open>xs.slice(-n)\<close>: the last \<open>n\<close> elements, all of them when there are fewer\<close>
  "slice_last n xs = drop (length xs - n) xs"

fun sumVelocity :: "Vector3 \<Rightarrow> sample list \<Rightarrow> Vector3" where
  \<comment> \<open>the loop over \<open>i = 1 .. recent.length - 1\<close>; the first argument is \<open>avgVelocity\<close>,
      the head of the list is \<open>recent[i-1]\<close>\<close>
  "sumVelocity acc (a # b # rest) =
     (let dt = (s_time b - s_time a) / 1000
      in if dt > 0
         then sumVelocity
                (add acc (multiply (subtract (s_position b) (s_position a)) (1 / dt)))
                (b # rest)
         else sumVelocity acc (b # rest))"
| "sumVelocity acc rest = acc"

definition predictPosition :: "TargetPredictor \<Rightarrow> number \<Rightarrow> Vector3" where
  "predictPosition p timeAhead =
     (if length (positionHistory p) < 2
      then (case positionHistory p of [] \<Rightarrow> zero_v | h # _ \<Rightarrow> s_position h)
      else
        let recent = slice_last 3 (positionHistory p);
            avgVelocity = sumVelocity zero_v recent;
            avgVelocity = multiply avgVelocity (1 / (real (length recent) - 1));
            currentPos = s_position (last (positionHistory p))
        in add currentPos (multiply avgVelocity timeAhead))"

definition reset_TargetPredictor :: "TargetPredictor \<Rightarrow> TargetPredictor" where
  "reset_TargetPredictor p = p\<lparr>positionHistory := []\<rparr>"

subsection \<open>EnhancedTargetManager\<close>

text \<open>
  A target is a mutable object that the manager's array, the manager's \<open>currentTarget\<close>
  and the engine all refer to. The objects live in a store, a function from references
  to objects, and the manager holds references: a write to a target's \<open>distance\<close> is
  seen through every reference to it.
\<close>

record target =
  t_id :: number
  t_position :: Vector3
  priority :: number
  targetType :: string
  lastSeen :: number
  isVisible :: bool
  health :: number
  distance :: number

type_synonym ref = nat

type_synonym store = "ref \<Rightarrow> target"

record EnhancedTargetManager =
  targets :: "ref list"
  currentTarget :: "ref option"
  targetLockTime :: number
  switchCooldown :: number

definition new_EnhancedTargetManager :: EnhancedTargetManager where
  "new_EnhancedTargetManager =
     \<lparr>targets = [], currentTarget = None, targetLockTime = 0, switchCooldown = 0\<rparr>"

definition calculateTargetScore ::
  "config \<Rightarrow> store \<Rightarrow> EnhancedTargetManager \<Rightarrow> ref \<Rightarrow> Vector3 \<Rightarrow> number" where
  "calculateTargetScore cfg h m r cameraPos =
     (let score = priority (h r) * 100;
          maxDistance = (if maxTargetDistance cfg = 0 then 50 else maxTargetDistance cfg);
          distanceFactor = max 0 (1 - distance (h r) / maxDistance);
          score = score + distanceFactor * 50;
          score = (if targetType (h r) = ''head'' \<and> headLockOnly cfg
                   then score + 30 else score);
          score = (case currentTarget m of
                     None \<Rightarrow> score
                   | Some c \<Rightarrow> if t_id (h c) = t_id (h r) then score + 20 else score)
      in score)"

definition isValidTarget :: "config \<Rightarrow> number \<Rightarrow> target \<Rightarrow> bool" where
  \<comment> \<open>the predicate of the filter in \<open>getBestTarget\<close>\<close>
  "isValidTarget cfg currentTime t =
     (let timeSinceLastSeen = currentTime - lastSeen t
      in isVisible t \<and> timeSinceLastSeen < targetTimeout cfg \<and> health t > 0)"

definition updateDistances :: "Vector3 \<Rightarrow> ref list \<Rightarrow> store \<Rightarrow> store" where
  \<comment> \<open>the \<open>forEach\<close> that writes \<open>target.distance\<close>\<close>
  "updateDistances cameraPos validTargets h =
     fold (\<lambda>r h'. h'(r := (h' r)\<lparr>distance := distanceTo cameraPos (t_position (h' r))\<rparr>))
       validTargets h"

fun selectLoop ::
  "config \<Rightarrow> store \<Rightarrow> EnhancedTargetManager \<Rightarrow> Vector3 \<Rightarrow> ref \<times> number \<Rightarrow> ref list
     \<Rightarrow> ref \<times> number" where
  \<comment> \<open>the loop over \<open>validTargets[1..]\<close>, carrying \<open>(bestTarget, bestScore)\<close>\<close>
  "selectLoop cfg h m cameraPos (bestTarget, bestScore) [] = (bestTarget, bestScore)"
| "selectLoop cfg h m cameraPos (bestTarget, bestScore) (r # rs) =
     (let score = calculateTargetScore cfg h m r cameraPos
      in if score > bestScore
         then selectLoop cfg h m cameraPos (r, score) rs
         else selectLoop cfg h m cameraPos (bestTarget, bestScore) rs)"

definition getBestTarget ::
  "config \<Rightarrow> number \<Rightarrow> Vector3 \<Rightarrow> store \<Rightarrow> EnhancedTargetManager
     \<Rightarrow> ref option \<times> store \<times> EnhancedTargetManager" where
  \<comment> \<open>the returned reference (\<open>None\<close> is \<open>null\<close>), the store and the manager after the call\<close>
  "getBestTarget cfg now cameraPos h m =
     (if targets m = [] then (None, h, m)
      else
        let currentTime = now;
            validTargets = filter (\<lambda>r. isValidTarget cfg currentTime (h r)) (targets m)
        in case validTargets of
             [] \<Rightarrow> (None, h, m)
           | v # rest \<Rightarrow>
               let h1 = updateDistances cameraPos validTargets h;
                   best = selectLoop cfg h1 m cameraPos
                            (v, calculateTargetScore cfg h1 m v cameraPos) rest;
                   bestTarget = fst best
               in if (case currentTarget m of
                        None \<Rightarrow> False
                      | Some c \<Rightarrow> t_id (h1 c) \<noteq> t_id (h1 bestTarget))
                  then if switchCooldown m > 0 \<and> \<not> instantSwitch cfg
                       then (currentTarget m, h1, m)
                       else (Some bestTarget, h1,
                             m\<lparr>switchCooldown := switchDelay cfg,
                               currentTarget := Some bestTarget\<rparr>)
                  else (Some bestTarget, h1, m\<lparr>currentTarget := Some bestTarget\<rparr>))"

definition update_TargetManager :: "EnhancedTargetManager \<Rightarrow> number \<Rightarrow> EnhancedTargetManager" where
  "update_TargetManager m deltaTime =
     (if switchCooldown m > 0 then m\<lparr>switchCooldown := switchCooldown m - deltaTime\<rparr> else m)"

definition updateTarget ::
  "store \<Rightarrow> EnhancedTargetManager \<Rightarrow> number \<Rightarrow> Vector3 \<Rightarrow> number \<Rightarrow> store" where
  \<comment> \<open>\<open>updateTarget(targetId, newPosition)\<close> writes to the first target of that id\<close>
  "updateTarget h m targetId newPosition now =
     (case find (\<lambda>r. t_id (h r) = targetId) (targets m) of
        None \<Rightarrow> h
      | Some r \<Rightarrow>
          h(r := (h r)\<lparr>t_position := clone newPosition, lastSeen := now, isVisible := True\<rparr>))"

subsection \<open>PerformanceMonitor and EnhancedCamera\<close>

record PerformanceMonitor =
  frameCount :: number
  lastFpsUpdate :: number
  fps :: number
  frameTime :: number
  lastFrameTime :: number

definition startFrame :: "PerformanceMonitor \<Rightarrow> number \<Rightarrow> PerformanceMonitor" where
  "startFrame p now = p\<lparr>lastFrameTime := now\<rparr>"

definition endFrame :: "PerformanceMonitor \<Rightarrow> number \<Rightarrow> PerformanceMonitor" where
  "endFrame p now =
     (let currentTime = now;
          p1 = p\<lparr>frameTime := currentTime - lastFrameTime p\<rparr>;
          p2 = p1\<lparr>frameCount := frameCount p1 + 1\<rparr>
      in if currentTime - lastFpsUpdate p2 > 1000
         then p2\<lparr>fps := frameCount p2, frameCount := 0, lastFpsUpdate := currentTime\<rparr>
         else p2)"

record EnhancedCamera =
  cam_position :: Vector3
  rotation :: Vector3
  fov :: number
  sensitivity :: number

definition setPosition :: "EnhancedCamera \<Rightarrow> Vector3 \<Rightarrow> EnhancedCamera" where
  "setPosition c vec = c\<lparr>cam_position := clone vec\<rparr>"

subsection \<open>SmartAutoFire\<close>

record SmartAutoFire =
  lastFireTime :: number
  consecutiveHits :: number
  accuracy :: number

definition new_SmartAutoFire :: SmartAutoFire where
  "new_SmartAutoFire = \<lparr>lastFireTime = 0, consecutiveHits = 0, accuracy = 10\<rparr>"

definition canFire :: "config \<Rightarrow> SmartAutoFire \<Rightarrow> number \<Rightarrow> number \<Rightarrow> number \<Rightarrow> bool" where
  "canFire cfg a targetDistance aimAccuracy now =
     (let currentTime = now;
          timeSinceLastFire = currentTime - lastFireTime a
      in if timeSinceLastFire < fireRate cfg then False
         else if targetDistance > maxFireDistance cfg then False
         else if aimAccuracy < minAccuracy cfg then False
         else True)"

definition fire ::
  "config \<Rightarrow> SmartAutoFire \<Rightarrow> target \<Rightarrow> number \<Rightarrow> number \<Rightarrow> number \<Rightarrow> number
     \<Rightarrow> bool \<times> SmartAutoFire" where
  \<comment> \<open>\<open>nowCan\<close> is the clock read by \<open>canFire\<close>, \<open>nowFire\<close> the one read by \<open>fire\<close>,
      \<open>rnd\<close> the value of \<open>Math.random()\<close>\<close>
  "fire cfg a tgt aimAccuracy nowCan nowFire rnd =
     (if \<not> canFire cfg a (distance tgt) aimAccuracy nowCan then (False, a)
      else
        let a1 = a\<lparr>lastFireTime := nowFire\<rparr>;
            hitChance = aimAccuracy * accuracy a1;
            hit = (rnd < hitChance)
        in if hit then (hit, a1\<lparr>consecutiveHits := consecutiveHits a1 + 1\<rparr>)
           else (hit, a1\<lparr>consecutiveHits := 0\<rparr>))"

definition updateAccuracy :: "SmartAutoFire \<Rightarrow> number \<Rightarrow> SmartAutoFire" where
  "updateAccuracy a recentPerformance =
     a\<lparr>accuracy := max (1 / 10) (min 1 recentPerformance)\<rparr>"

subsection \<open>EnhancedAimLockEngine\<close>

text \<open>
  The engine owns one instance of every class above; \<open>objects\<close> is the store of the
  target objects. The interval handle of \<open>start\<close> and \<open>stop\<close> is not part of a tick.
\<close>

record EnhancedAimLockEngine =
  objects :: store
  isActive :: bool
  lastUpdateTime :: number
  kalmanX :: AdvancedKalmanFilter
  kalmanY :: AdvancedKalmanFilter
  kalmanZ :: AdvancedKalmanFilter
  dragLock :: EnhancedDragLock
  camera :: EnhancedCamera
  autoFire :: SmartAutoFire
  targetManager :: EnhancedTargetManager
  predictor :: TargetPredictor
  performance :: PerformanceMonitor
  currentAccuracy :: number
  lockDuration :: number
  totalShots :: number
  totalHits :: number

text \<open>
  What one tick reads from outside: the clock at each place that calls \<open>Date.now()\<close>
  (the three filters read it once each, in \<open>update\<close> or in \<open>reset\<close>) and the one
  value of \<open>Math.random()\<close> drawn by \<open>fire\<close>.
\<close>

record readings =
  tStartFrame :: number
  tTick :: number
  tSelect :: number
  tKalmanX :: number
  tKalmanY :: number
  tKalmanZ :: number
  tCanFire :: number
  tFire :: number
  tEndFrame :: number
  random :: number

definition js_divide :: "number \<Rightarrow> number \<Rightarrow> number option" where
  \<comment> \<open>\<open>a / b\<close> with the divisor checked: \<open>None\<close> stands for the non-finite result
      (\<open>Infinity\<close>, \<open>-Infinity\<close> or \<open>NaN\<close>) that a zero divisor gives\<close>
  "js_divide a b = (if b = 0 then None else Some (a / b))"

definition getHitRate :: "EnhancedAimLockEngine \<Rightarrow> number option" where
  "getHitRate e = (if totalShots e > 0 then js_divide (totalHits e) (totalShots e) else Some 0)"

definition resetTracking :: "readings \<Rightarrow> EnhancedAimLockEngine \<Rightarrow> EnhancedAimLockEngine" where
  "resetTracking env e =
     e\<lparr>kalmanX := reset (kalmanX e) (tKalmanX env),
       kalmanY := reset (kalmanY e) (tKalmanY env),
       kalmanZ := reset (kalmanZ e) (tKalmanZ env),
       predictor := reset_TargetPredictor (predictor e),
       lockDuration := 0\<rparr>"

definition trackTarget ::
  "config \<Rightarrow> readings \<Rightarrow> ref \<Rightarrow> number \<Rightarrow> number \<Rightarrow> EnhancedAimLockEngine
     \<Rightarrow> EnhancedAimLockEngine" where
  \<comment> \<open>the part of \<open>updateAimLock\<close> from \<open>Update prediction system\<close> to
      \<open>Update lock duration\<close>, for the selected target \<open>r\<close>\<close>
  "trackTarget cfg env r currentTime deltaTime e =
     (let tgt = objects e r;
          e1 = e\<lparr>predictor := addPosition (predictor e) (t_position tgt) currentTime\<rparr>;
          ux = update (kalmanX e1) (vx (t_position tgt)) (tKalmanX env);
          uy = update (kalmanY e1) (vy (t_position tgt)) (tKalmanY env);
          uz = update (kalmanZ e1) (vz (t_position tgt)) (tKalmanZ env);
          e2 = e1\<lparr>kalmanX := snd ux, kalmanY := snd uy, kalmanZ := snd uz\<rparr>;
          filteredPos = \<lparr>vx = fst ux, vy = fst uy, vz = fst uz\<rparr>;
          predictionTime = maxPredictionTime cfg / 1000;
          predictedPos = predictPosition (predictor e2) predictionTime;
          blendFactor = min (distance tgt / 20) 1;
          finalTarget = lerp filteredPos predictedPos (blendFactor * predictionWeight cfg);
          dl = applyDragLock cfg (dragLock e2) (cam_position (camera e2)) finalTarget deltaTime;
          newPos = fst dl;
          e3 = e2\<lparr>dragLock := snd dl, camera := setPosition (camera e2) newPos\<rparr>;
          aimError = distanceTo newPos finalTarget;
          e4 = e3\<lparr>currentAccuracy := max 0 (1 - aimError / snapThreshold cfg)\<rparr>
      in if currentAccuracy e4 > 8 / 10
         then e4\<lparr>lockDuration := lockDuration e4 + deltaTime\<rparr>
         else e4\<lparr>lockDuration := 0\<rparr>)"

definition autoFireLogic ::
  "config \<Rightarrow> readings \<Rightarrow> ref \<Rightarrow> EnhancedAimLockEngine \<Rightarrow> EnhancedAimLockEngine" where
  \<comment> \<open>the block \<open>Auto fire logic\<close> of \<open>updateAimLock\<close>\<close>
  "autoFireLogic cfg env r e =
     (if fireOnLock cfg \<and> lockDuration e > minLockTime cfg
      then
        let f = fire cfg (autoFire e) (objects e r) (currentAccuracy e)
                  (tCanFire env) (tFire env) (random env);
            fired = fst f;
            e1 = e\<lparr>autoFire := snd f\<rparr>
        in if fired
           then
             let e2 = e1\<lparr>totalShots := totalShots e1 + 1\<rparr>
             in if currentAccuracy e2 > 9 / 10
                then e2\<lparr>totalHits := totalHits e2 + 1\<rparr> else e2
           else e1
      else e)"

definition updateAimLock ::
  "config \<Rightarrow> readings \<Rightarrow> EnhancedAimLockEngine \<Rightarrow> EnhancedAimLockEngine option" where
  \<comment> \<open>one tick; \<open>None\<close> only if the hit rate handed to \<open>updateAccuracy\<close> were not finite\<close>
  "updateAimLock cfg env e =
     (let e1 = e\<lparr>performance := startFrame (performance e) (tStartFrame env)\<rparr>;
          currentTime = tTick env;
          deltaTime = (currentTime - lastUpdateTime e1) / 1000;
          e2 = e1\<lparr>lastUpdateTime := currentTime\<rparr>;
          sel = getBestTarget cfg (tSelect env) (cam_position (camera e2))
                  (objects e2) (targetManager e2);
          e3 = e2\<lparr>objects := fst (snd sel), targetManager := snd (snd sel)\<rparr>
      in case fst sel of
           None \<Rightarrow>
             let e4 = resetTracking env e3
             in Some (e4\<lparr>performance := endFrame (performance e4) (tEndFrame env)\<rparr>)
         | Some r \<Rightarrow>
             let e4 = trackTarget cfg env r currentTime deltaTime e3;
                 e5 = autoFireLogic cfg env r e4;
                 e6 = e5\<lparr>targetManager := update_TargetManager (targetManager e5) deltaTime\<rparr>
             in (case getHitRate e6 of
                   None \<Rightarrow> None
                 | Some rate \<Rightarrow>
                     let e7 = e6\<lparr>autoFire := updateAccuracy (autoFire e6) rate\<rparr>
                     in Some (e7\<lparr>performance := endFrame (performance e7) (tEndFrame env)\<rparr>)))"

definition selected :: "config \<Rightarrow> readings \<Rightarrow> EnhancedAimLockEngine \<Rightarrow> ref option" where
  \<comment> \<open>the target that \<open>updateAimLock\<close> gets from \<open>getBestTarget\<close>\<close>
  "selected cfg env e =
     fst (getBestTarget cfg (tSelect env) (cam_position (camera e)) (objects e)
            (targetManager e))"

definition beforeFire ::
  "config \<Rightarrow> readings \<Rightarrow> ref \<Rightarrow> EnhancedAimLockEngine \<Rightarrow> EnhancedAimLockEngine" where
  \<comment> \<open>the engine when \<open>updateAimLock\<close>, having selected \<open>r\<close>, reaches \<open>Auto fire logic\<close>\<close>
  "beforeFire cfg env r e =
     (let sel = getBestTarget cfg (tSelect env) (cam_position (camera e)) (objects e) (targetManager e)
      in trackTarget cfg env r (tTick env) ((tTick env - lastUpdateTime e) / 1000)
           (e\<lparr>performance := startFrame (performance e) (tStartFrame env),
              lastUpdateTime := tTick env,
              objects := fst (snd sel), targetManager := snd (snd sel)\<rparr>))"

subsection \<open>The specification's words for the motion controller\<close>

definition blendedVelocity :: "config \<Rightarrow> EnhancedDragLock \<Rightarrow> Vector3 \<Rightarrow> Vector3 \<Rightarrow> Vector3" where
  \<comment> \<open>\<open>lerp(oldVelocity, delta*force, smoothingFactor)\<close>, the force taking the long-range
      multiplier beyond \<open>maxDistance\<close>\<close>
  "blendedVelocity cfg d currentPos targetPos =
     (let delta = subtract targetPos currentPos;
          force = (if length_v delta > maxDistance cfg
                   then dragForce cfg * longRangeMultiplier cfg else dragForce cfg)
      in lerp (velocity d) (multiply delta force) (smoothingFactor cfg))"

definition snapCondition :: "config \<Rightarrow> EnhancedDragLock \<Rightarrow> Vector3 \<Rightarrow> Vector3 \<Rightarrow> bool" where
  \<comment> \<open>distance below \<open>snapThreshold\<close>, magnitude of the blended velocity below
      \<open>velocityThreshold\<close>, snapping enabled\<close>
  "snapCondition cfg d currentPos targetPos =
     (length_v (subtract targetPos currentPos) < snapThreshold cfg \<and>
      length_v (blendedVelocity cfg d currentPos targetPos) < velocityThreshold cfg \<and>
      enableSnap cfg)"

subsection \<open>The specification's words for the registry\<close>

definition validTargetsOf :: "config \<Rightarrow> number \<Rightarrow> store \<Rightarrow> EnhancedTargetManager \<Rightarrow> ref list" where
  \<comment> \<open>the entities that are visible, seen less than the timeout ago and of positive health\<close>
  "validTargetsOf cfg now h m = filter (\<lambda>r. isValidTarget cfg now (h r)) (targets m)"

definition highestScoring ::
  "config \<Rightarrow> store \<Rightarrow> EnhancedTargetManager \<Rightarrow> Vector3 \<Rightarrow> ref list \<Rightarrow> ref \<Rightarrow> bool" where
  \<comment> \<open>\<open>b\<close> is one of \<open>vs\<close> and no entity of \<open>vs\<close> scores higher\<close>
  "highestScoring cfg h m cam vs b =
     (b \<in> set vs \<and> (\<forall>x \<in> set vs. calculateTargetScore cfg h m x cam \<le> calculateTargetScore cfg h m b cam))"

subsection \<open>The specification's words for the motion predictor\<close>

definition pairVelocity :: "sample \<Rightarrow> sample \<Rightarrow> Vector3" where
  \<comment> \<open>the velocity between two consecutive samples, per second, the timestamps being
      milliseconds\<close>
  "pairVelocity a b =
     multiply (subtract (s_position b) (s_position a)) (1 / ((s_time b - s_time a) / 1000))"

fun computedVelocities :: "sample list \<Rightarrow> Vector3 list" where
  \<comment> \<open>the velocities of the consecutive pairs with positive elapsed time, in order\<close>
  "computedVelocities (a # b # rest) =
     (if (s_time b - s_time a) / 1000 > 0 then [pairVelocity a b] else [])
       @ computedVelocities (b # rest)"
| "computedVelocities rest = []"

definition positiveElapsed :: "sample list \<Rightarrow> bool" where
  \<comment> \<open>every consecutive pair of samples has positive elapsed time\<close>
  "positiveElapsed xs = successively (\<lambda>a b. (s_time b - s_time a) / 1000 > 0) xs"

definition average_v :: "Vector3 list \<Rightarrow> Vector3" where
  \<comment> \<open>the mean of a list of vectors\<close>
  "average_v vs = multiply (foldl add zero_v vs) (1 / real (length vs))"

subsection \<open>Concrete states\<close>

definition kf_fresh :: AdvancedKalmanFilter where
  \<comment> \<open>a filter as the engine constructs it: \<open>processNoise\<close> takes its default 0.1\<close>
  "kf_fresh = new_AdvancedKalmanFilter (4 / 1000) (1 / 100) (1 / 10) 0"

definition kf_predicted :: AdvancedKalmanFilter where
  \<comment> \<open>\<open>new AdvancedKalmanFilter(1, 1, 1)\<close> after \<open>update(0)\<close> and \<open>predict(1)\<close>\<close>
  "kf_predicted =
     \<lparr>kf_R = 1, kf_Q = 1, processNoise = 1, state = (0, 0),
      covariance = ((2, 1), (0, 2)), isInitialized = True, kf_lastTime = 0\<rparr>"

definition dl_fresh :: EnhancedDragLock where
  "dl_fresh = new_EnhancedDragLock 0"

definition far_point :: Vector3 where
  "far_point = \<lparr>vx = 3, vy = 4, vz = 0\<rparr>"

definition af_recent :: SmartAutoFire where
  \<comment> \<open>a trigger that fired at time 990\<close>
  "af_recent = \<lparr>lastFireTime = 990, consecutiveHits = 1, accuracy = 1 / 10\<rparr>"

definition target_A :: target where
  "target_A =
     \<lparr>t_id = 1, t_position = zero_v, priority = 1, targetType = ''head'', lastSeen = 0,
      isVisible = True, health = 100, distance = 0\<rparr>"

definition engine0 :: EnhancedAimLockEngine where
  \<comment> \<open>a new engine at time 0 with the one target \<open>target_A\<close>, stored at reference 0\<close>
  "engine0 =
     \<lparr>objects = (\<lambda>_. target_A), isActive = True, lastUpdateTime = 0,
      kalmanX = kf_fresh, kalmanY = kf_fresh, kalmanZ = kf_fresh,
      dragLock = dl_fresh,
      camera = \<lparr>cam_position = zero_v, rotation = zero_v, fov = 90, sensitivity = 1\<rparr>,
      autoFire = new_SmartAutoFire,
      targetManager = new_EnhancedTargetManager\<lparr>targets := [0]\<rparr>,
      predictor = new_TargetPredictor,
      performance = \<lparr>frameCount = 0, lastFpsUpdate = 0, fps = 0, frameTime = 0,
                      lastFrameTime = 0\<rparr>,
      currentAccuracy = 0, lockDuration = 0, totalShots = 0, totalHits = 0\<rparr>"

definition two_samples :: TargetPredictor where
  "two_samples =
     new_TargetPredictor\<lparr>positionHistory :=
       [\<lparr>s_position = zero_v, s_time = 0\<rparr>,
        \<lparr>s_position = \<lparr>vx = 1000, vy = 0, vz = 0\<rparr>, s_time = 1000\<rparr>]\<rparr>"

definition steady_samples :: TargetPredictor where
  \<comment> \<open>four samples one second apart\<close>
  "steady_samples =
     new_TargetPredictor\<lparr>positionHistory :=
       [\<lparr>s_position = \<lparr>vx = 50, vy = 0, vz = 0\<rparr>, s_time = 0\<rparr>,
        \<lparr>s_position = zero_v, s_time = 1000\<rparr>,
        \<lparr>s_position = \<lparr>vx = 2, vy = 0, vz = 0\<rparr>, s_time = 2000\<rparr>,
        \<lparr>s_position = \<lparr>vx = 6, vy = 0, vz = 0\<rparr>, s_time = 3000\<rparr>]\<rparr>"

definition repeated_time_samples :: TargetPredictor where
  \<comment> \<open>three samples, the first two with the same timestamp\<close>
  "repeated_time_samples =
     new_TargetPredictor\<lparr>positionHistory :=
       [\<lparr>s_position = zero_v, s_time = 0\<rparr>,
        \<lparr>s_position = \<lparr>vx = 4, vy = 0, vz = 0\<rparr>, s_time = 0\<rparr>,
        \<lparr>s_position = \<lparr>vx = 8, vy = 0, vz = 0\<rparr>, s_time = 1000\<rparr>]\<rparr>"

definition target_B :: target where
  "target_B =
     \<lparr>t_id = 2, t_position = zero_v, priority = 5, targetType = ''head'', lastSeen = 0,
      isVisible = True, health = 100, distance = 0\<rparr>"

definition store_AB :: store where
  "store_AB = (\<lambda>_. target_A)(1 := target_B)"

definition store_stale :: store where
  \<comment> \<open>\<open>store_AB\<close> after \<open>updateTarget\<close> of the first target at time 2500\<close>
  "store_stale = store_AB(0 := target_A\<lparr>lastSeen := 2500\<rparr>)"

definition manager_AB :: "ref option \<Rightarrow> number \<Rightarrow> EnhancedTargetManager" where
  "manager_AB cur cooldown =
     \<lparr>targets = [0, 1], currentTarget = cur, targetLockTime = 0, switchCooldown = cooldown\<rparr>"

definition env0 :: readings where
  \<comment> \<open>a tick one second after time 0, every clock reading 1000, the random draw 0.5\<close>
  "env0 =
     \<lparr>tStartFrame = 1000, tTick = 1000, tSelect = 1000, tKalmanX = 1000, tKalmanY = 1000,
      tKalmanZ = 1000, tCanFire = 1000, tFire = 1000, tEndFrame = 1000, random = 1 / 2\<rparr>"

definition engine_with :: "SmartAutoFire \<Rightarrow> EnhancedAimLockEngine" where
  "engine_with af = engine0\<lparr>autoFire := af\<rparr>"

definition af_adapted :: SmartAutoFire where
  \<comment> \<open>a trigger after \<open>updateAccuracy(0)\<close>\<close>
  "af_adapted = \<lparr>lastFireTime = 0, consecutiveHits = 0, accuracy = 1 / 10\<rparr>"

section \<open>The per-axis filter\<close>

lemma kf_predicted_reached:
  "predict (snd (update (new_AdvancedKalmanFilter 1 1 1 0) 0 0)) 1 = kf_predicted"
  by (simp add: predict_def update_def new_AdvancedKalmanFilter_def kf_predicted_def)

text \<open>
  C1 as the specification states it gives \<open>P00' = P00 + dt*P10 + dt*P01 + processNoise\<close>.
  The source has no \<open>dt*P01\<close> term: on the filter \<open>kf_predicted\<close>, where \<open>P01 = 1\<close>,
  \<open>predict(1)\<close> stores \<open>P00' = 3\<close> and the stated relation gives 4.
\<close>

theorem predict_P00_counterexample:
  "isInitialized kf_predicted \<and>
   fst (fst (covariance (predict kf_predicted 1))) \<noteq>
     fst (fst (covariance kf_predicted)) + 1 * fst (snd (covariance kf_predicted))
       + 1 * snd (fst (covariance kf_predicted)) + processNoise kf_predicted"
  by (simp add: predict_def kf_predicted_def)

text \<open>
  C1, amended: on an initialized filter with state \<open>[pos, vel]\<close> and covariance
  \<open>[[P00, P01], [P10, P11]]\<close>, \<open>predict(dt)\<close> changes only the state and the covariance:
  the position becomes \<open>pos + vel*dt\<close>, the velocity and \<open>P10\<close> stay, and
  \<open>P00' = P00 + dt*P10 + processNoise\<close>, \<open>P01' = P01 + dt*P11\<close>,
  \<open>P11' = P11 + processNoise\<close>. On an uninitialized filter \<open>predict(dt)\<close> changes nothing.
\<close>

theorem predict_relations:
  "(isInitialized k \<and> state k = (pos, vel) \<and> covariance k = ((P00, P01), (P10, P11)) \<longrightarrow>
      predict k dt =
        k\<lparr>state := (pos + vel * dt, vel),
          covariance := ((P00 + dt * P10 + processNoise k, P01 + dt * P11),
                         (P10, P11 + processNoise k))\<rparr>) \<and>
   (\<not> isInitialized k \<longrightarrow> predict k dt = k)"
  by (simp add: predict_def)

theorem predict_relations_witness:
  "predict kf_predicted 2 =
     kf_predicted\<lparr>state := (0, 0), covariance := ((3, 5), (0, 3))\<rparr> \<and>
   predict kf_fresh 2 = kf_fresh"
proof -
  have a: "isInitialized kf_predicted \<and> state kf_predicted = (0, 0) \<and>
           covariance kf_predicted = ((2, 1), (0, 2))"
    by (simp add: kf_predicted_def)
  have b: "\<not> isInitialized kf_fresh"
    by (simp add: kf_fresh_def new_AdvancedKalmanFilter_def)
  have c: "processNoise kf_predicted = 1"
    by (simp add: kf_predicted_def)
  from predict_relations [of kf_predicted 0 0 2 1 0 2 2] a c
  have "predict kf_predicted 2 =
          kf_predicted\<lparr>state := (0, 0), covariance := ((3, 5), (0, 3))\<rparr>"
    by simp
  moreover from predict_relations [of kf_fresh 0 0 1 0 0 1 2] b
  have "predict kf_fresh 2 = kf_fresh"
    by simp
  ultimately show ?thesis by simp
qed

text \<open>
  C4: on an uninitialized filter \<open>update(m)\<close> returns \<open>m\<close> itself, stores the state
  \<open>[m, 0]\<close> and sets the initialized flag; besides these it only records the time of the
  call. No gain is computed on this first sample.
\<close>

theorem update_first_sample:
  assumes "\<not> isInitialized k"
  shows "update k m now =
           (m, k\<lparr>state := (m, 0), isInitialized := True, kf_lastTime := now\<rparr>)"
  using assms by (simp add: update_def)

theorem update_first_sample_witness:
  "\<not> isInitialized kf_fresh \<and>
   update kf_fresh 7 16 =
     (7, \<lparr>kf_R = 4 / 1000, kf_Q = 1 / 100, processNoise = 1 / 10, state = (7, 0),
          covariance = ((1, 0), (0, 1)), isInitialized = True, kf_lastTime = 16\<rparr>)"
proof -
  have h: "\<not> isInitialized kf_fresh"
    by (simp add: kf_fresh_def new_AdvancedKalmanFilter_def)
  from update_first_sample [OF h, of 7 16] h show ?thesis
    by (simp add: kf_fresh_def new_AdvancedKalmanFilter_def)
qed

section \<open>The motion controller\<close>

lemma clone_id: "clone a = a"
  by (simp add: clone_def)

lemma snap_at_rest: "snapCondition EnhancedConfig dl_fresh zero_v zero_v"
  by (simp add: snapCondition_def blendedVelocity_def EnhancedConfig_def dl_fresh_def
      new_EnhancedDragLock_def zero_v_def length_v_def subtract_def lerp_def add_def
      multiply_def)

lemma no_snap_far: "\<not> snapCondition EnhancedConfig dl_fresh zero_v far_point"
  by (simp add: snapCondition_def blendedVelocity_def EnhancedConfig_def dl_fresh_def
      new_EnhancedDragLock_def zero_v_def far_point_def length_v_def subtract_def lerp_def
      add_def multiply_def)

lemma blend_far:
  "blendedVelocity EnhancedConfig dl_fresh zero_v far_point =
     \<lparr>vx = 15 / 1000, vy = 20 / 1000, vz = 0\<rparr>"
  by (simp add: blendedVelocity_def EnhancedConfig_def dl_fresh_def new_EnhancedDragLock_def
      zero_v_def far_point_def length_v_def subtract_def lerp_def add_def multiply_def)

text \<open>
  C3: \<open>applyDragLock(current, target, dt)\<close> returns \<open>target\<close> itself when the distance
  is below \<open>snapThreshold\<close>, the magnitude of the velocity after the blend is below
  \<open>velocityThreshold\<close> and snapping is enabled; in every other case it returns
  \<open>current + velocity*dt\<close> for the blended velocity
  \<open>lerp(oldVelocity, delta*force, smoothingFactor)\<close>.
\<close>

theorem applyDragLock_result:
  "(snapCondition cfg d currentPos targetPos \<longrightarrow>
      fst (applyDragLock cfg d currentPos targetPos deltaTime) = targetPos) \<and>
   (\<not> snapCondition cfg d currentPos targetPos \<longrightarrow>
      fst (applyDragLock cfg d currentPos targetPos deltaTime) =
        add currentPos (multiply (blendedVelocity cfg d currentPos targetPos) deltaTime))"
  by (simp add: applyDragLock_def snapCondition_def blendedVelocity_def Let_def)

theorem applyDragLock_result_witness:
  "snapCondition EnhancedConfig dl_fresh zero_v zero_v \<and>
   fst (applyDragLock EnhancedConfig dl_fresh zero_v zero_v 2) = zero_v \<and>
   \<not> snapCondition EnhancedConfig dl_fresh zero_v far_point \<and>
   fst (applyDragLock EnhancedConfig dl_fresh zero_v far_point 2) =
     \<lparr>vx = 3 / 100, vy = 4 / 100, vz = 0\<rparr>"
proof -
  from applyDragLock_result [of EnhancedConfig dl_fresh zero_v zero_v 2] snap_at_rest
  have a: "fst (applyDragLock EnhancedConfig dl_fresh zero_v zero_v 2) = zero_v"
    by simp
  from applyDragLock_result [of EnhancedConfig dl_fresh zero_v far_point 2] no_snap_far
  have "fst (applyDragLock EnhancedConfig dl_fresh zero_v far_point 2) =
          add zero_v (multiply (blendedVelocity EnhancedConfig dl_fresh zero_v far_point) 2)"
    by simp
  also have "\<dots> = \<lparr>vx = 3 / 100, vy = 4 / 100, vz = 0\<rparr>"
    unfolding blend_far by (simp add: add_def multiply_def zero_v_def)
  finally have b: "fst (applyDragLock EnhancedConfig dl_fresh zero_v far_point 2) =
                     \<lparr>vx = 3 / 100, vy = 4 / 100, vz = 0\<rparr>" .
  from a b snap_at_rest no_snap_far show ?thesis by simp
qed

text \<open>
  C10: every call of \<open>applyDragLock\<close> stores the blended velocity, on the snap branch as
  on the other one. The snap branch leaves \<open>lastPosition\<close> as it was; the other branch
  stores the returned position there.
\<close>

theorem applyDragLock_state:
  "velocity (snd (applyDragLock cfg d currentPos targetPos deltaTime)) =
     blendedVelocity cfg d currentPos targetPos \<and>
   (snapCondition cfg d currentPos targetPos \<longrightarrow>
      lastPosition (snd (applyDragLock cfg d currentPos targetPos deltaTime)) =
        lastPosition d) \<and>
   (\<not> snapCondition cfg d currentPos targetPos \<longrightarrow>
      lastPosition (snd (applyDragLock cfg d currentPos targetPos deltaTime)) =
        fst (applyDragLock cfg d currentPos targetPos deltaTime))"
  by (simp add: applyDragLock_def snapCondition_def blendedVelocity_def Let_def clone_id)

theorem applyDragLock_state_witness:
  "snapCondition EnhancedConfig (dl_fresh\<lparr>lastPosition := far_point\<rparr>) zero_v zero_v \<and>
   snd (applyDragLock EnhancedConfig (dl_fresh\<lparr>lastPosition := far_point\<rparr>) zero_v zero_v 2) =
     \<lparr>velocity = zero_v, lastPosition = far_point, dl_lastTime = 0\<rparr> \<and>
   \<not> snapCondition EnhancedConfig dl_fresh zero_v far_point \<and>
   snd (applyDragLock EnhancedConfig dl_fresh zero_v far_point 2) =
     \<lparr>velocity = \<lparr>vx = 15 / 1000, vy = 20 / 1000, vz = 0\<rparr>,
      lastPosition = \<lparr>vx = 3 / 100, vy = 4 / 100, vz = 0\<rparr>, dl_lastTime = 0\<rparr>"
proof -
  let ?d = "dl_fresh\<lparr>lastPosition := far_point\<rparr>"
  have s: "snapCondition EnhancedConfig ?d zero_v zero_v"
    using snap_at_rest by (simp add: snapCondition_def blendedVelocity_def)
  have t: "dl_lastTime (snd (applyDragLock cfg d c g dt)) = dl_lastTime d" for cfg d c g dt
    by (simp add: applyDragLock_def Let_def)
  have z: "blendedVelocity EnhancedConfig ?d zero_v zero_v = zero_v"
    by (simp add: blendedVelocity_def EnhancedConfig_def dl_fresh_def
        new_EnhancedDragLock_def zero_v_def length_v_def subtract_def lerp_def add_def
        multiply_def)
  from applyDragLock_state [of EnhancedConfig ?d zero_v zero_v 2] s z
  have a: "snd (applyDragLock EnhancedConfig ?d zero_v zero_v 2) =
             \<lparr>velocity = zero_v, lastPosition = far_point, dl_lastTime = 0\<rparr>"
    using t [of EnhancedConfig ?d zero_v zero_v 2]
    by (cases "snd (applyDragLock EnhancedConfig ?d zero_v zero_v 2)")
       (simp add: dl_fresh_def new_EnhancedDragLock_def)
  have r: "fst (applyDragLock EnhancedConfig dl_fresh zero_v far_point 2) =
             \<lparr>vx = 3 / 100, vy = 4 / 100, vz = 0\<rparr>"
    by (simp add: applyDragLock_def EnhancedConfig_def dl_fresh_def new_EnhancedDragLock_def
        zero_v_def far_point_def length_v_def subtract_def lerp_def add_def multiply_def
        Let_def)
  from applyDragLock_state [of EnhancedConfig dl_fresh zero_v far_point 2] no_snap_far
    blend_far r
  have b: "snd (applyDragLock EnhancedConfig dl_fresh zero_v far_point 2) =
             \<lparr>velocity = \<lparr>vx = 15 / 1000, vy = 20 / 1000, vz = 0\<rparr>,
              lastPosition = \<lparr>vx = 3 / 100, vy = 4 / 100, vz = 0\<rparr>, dl_lastTime = 0\<rparr>"
    using t [of EnhancedConfig dl_fresh zero_v far_point 2]
    by (cases "snd (applyDragLock EnhancedConfig dl_fresh zero_v far_point 2)")
       (simp add: dl_fresh_def new_EnhancedDragLock_def)
  from a b s no_snap_far show ?thesis by simp
qed

section \<open>The registry\<close>

lemma updateDistances_other_fields:
  "t_id (updateDistances cam vs h x) = t_id (h x) \<and>
   t_position (updateDistances cam vs h x) = t_position (h x) \<and>
   priority (updateDistances cam vs h x) = priority (h x) \<and>
   targetType (updateDistances cam vs h x) = targetType (h x)"
  unfolding updateDistances_def
  by (induction vs arbitrary: h) simp_all

lemma updateDistances_t_id: "t_id (updateDistances cam vs h x) = t_id (h x)"
  by (simp add: updateDistances_other_fields)

lemma selectLoop_invariant:
  assumes "selectLoop cfg h m cam (b, s) rs = (b', s')"
  shows "b' \<in> insert b (set rs) \<and> s \<le> s' \<and>
         (\<forall>x \<in> set rs. calculateTargetScore cfg h m x cam \<le> s') \<and>
         ((b' = b \<and> s' = s) \<or> s' = calculateTargetScore cfg h m b' cam)"
  using assms
proof (induction rs arbitrary: b s)
  case Nil
  then show ?case by simp
next
  case (Cons r rs)
  show ?case
  proof (cases "calculateTargetScore cfg h m r cam > s")
    case True
    with Cons.prems have "selectLoop cfg h m cam (r, calculateTargetScore cfg h m r cam) rs = (b', s')"
      by (simp add: Let_def)
    from Cons.IH [OF this] True show ?thesis by auto
  next
    case False
    with Cons.prems have "selectLoop cfg h m cam (b, s) rs = (b', s')"
      by (simp add: Let_def)
    from Cons.IH [OF this] False show ?thesis by auto
  qed
qed

lemma selectLoop_highest:
  "highestScoring cfg h m cam (v # rest)
     (fst (selectLoop cfg h m cam (v, calculateTargetScore cfg h m v cam) rest))"
proof -
  obtain b' s' where r: "selectLoop cfg h m cam (v, calculateTargetScore cfg h m v cam) rest = (b', s')"
    by (cases "selectLoop cfg h m cam (v, calculateTargetScore cfg h m v cam) rest")
  from selectLoop_invariant [OF r] show ?thesis
    unfolding highestScoring_def r by auto
qed


lemma valid_AB: "validTargetsOf EnhancedConfig 1000 store_AB (manager_AB cur cd) = [0, 1]"
  by (simp add: validTargetsOf_def store_AB_def manager_AB_def isValidTarget_def
      EnhancedConfig_def target_A_def target_B_def)

lemma valid_stale: "validTargetsOf EnhancedConfig 3000 store_stale (manager_AB cur cd) = [0]"
  by (simp add: validTargetsOf_def store_stale_def store_AB_def manager_AB_def isValidTarget_def
      EnhancedConfig_def target_A_def target_B_def)

lemma dist_AB: "updateDistances zero_v [0, 1] store_AB = store_AB"
  by (rule ext) (simp add: updateDistances_def store_AB_def target_A_def target_B_def distanceTo_def zero_v_def)

lemma best_AB: "selectLoop EnhancedConfig store_AB (manager_AB (Some 0) cd) zero_v
       (0, calculateTargetScore EnhancedConfig store_AB (manager_AB (Some 0) cd) 0 zero_v) [1] = (1, 580)"
  by (simp add: calculateTargetScore_def store_AB_def manager_AB_def target_A_def target_B_def EnhancedConfig_def Let_def)

text \<open>
  C2: let a current selection exist and let the entity that the selection loop finds,
  a highest-scoring valid entity, have another id. While the cooldown is positive and
  instant switch is off, \<open>getBestTarget\<close> returns the current selection and leaves the
  manager, cooldown included, as it was; the only writes are the refreshed distances of
  the valid entities. When the cooldown is not positive or instant switch is on, it
  returns the new entity, makes it the selection and sets the cooldown to \<open>switchDelay\<close>.
\<close>

theorem getBestTarget_hysteresis:
  assumes cur: "currentTarget m = Some c"
    and valid: "validTargetsOf cfg now h m = v # rest"
    and h1: "h1 = updateDistances cam (v # rest) h"
    and best: "best = fst (selectLoop cfg h1 m cam (v, calculateTargetScore cfg h1 m v cam) rest)"
    and differs: "t_id (h c) \<noteq> t_id (h best)"
  shows "highestScoring cfg h1 m cam (v # rest) best \<and>
     (switchCooldown m > 0 \<and> \<not> instantSwitch cfg \<longrightarrow>
        getBestTarget cfg now cam h m = (Some c, h1, m)) \<and>
     (\<not> switchCooldown m > 0 \<or> instantSwitch cfg \<longrightarrow>
        getBestTarget cfg now cam h m =
          (Some best, h1, m\<lparr>switchCooldown := switchDelay cfg, currentTarget := Some best\<rparr>))"
proof -
  have hs: "highestScoring cfg h1 m cam (v # rest) best"
    unfolding best by (rule selectLoop_highest)
  have ne: "targets m \<noteq> []"
    using valid by (auto simp add: validTargetsOf_def)
  have f: "filter (\<lambda>r. isValidTarget cfg now (h r)) (targets m) = v # rest"
    using valid by (simp add: validTargetsOf_def)
  have d: "t_id (h1 c) \<noteq> t_id (h1 best)"
    using differs by (simp add: h1 updateDistances_t_id)
  have a: "switchCooldown m > 0 \<and> \<not> instantSwitch cfg \<longrightarrow>
        getBestTarget cfg now cam h m = (Some c, h1, m)"
    using ne f cur d unfolding getBestTarget_def h1 best by (simp add: Let_def)
  have b: "\<not> switchCooldown m > 0 \<or> instantSwitch cfg \<longrightarrow>
        getBestTarget cfg now cam h m =
          (Some best, h1, m\<lparr>switchCooldown := switchDelay cfg, currentTarget := Some best\<rparr>)"
    using ne f cur d unfolding getBestTarget_def h1 best by (auto simp add: Let_def)
  from hs a b show ?thesis by simp
qed

theorem getBestTarget_hysteresis_witness:
  "getBestTarget EnhancedConfig 1000 zero_v store_AB (manager_AB (Some 0) 197) =
     (Some 0, store_AB, manager_AB (Some 0) 197) \<and>
   getBestTarget EnhancedConfig 1000 zero_v store_AB (manager_AB (Some 0) 0) =
     (Some 1, store_AB, manager_AB (Some 1) 200)"
proof -
  have id: "t_id (store_AB 0) \<noteq> t_id (store_AB 1)"
    by (simp add: store_AB_def target_A_def target_B_def)
  have c: "currentTarget (manager_AB (Some 0) cd) = Some 0" for cd
    by (simp add: manager_AB_def)
  have s: "switchCooldown (manager_AB (Some 0) cd) = cd \<and> \<not> instantSwitch EnhancedConfig \<and>
           switchDelay EnhancedConfig = 200" for cd
    by (simp add: manager_AB_def EnhancedConfig_def)
  have b: "1 = fst (selectLoop EnhancedConfig store_AB (manager_AB (Some 0) cd) zero_v
              (0, calculateTargetScore EnhancedConfig store_AB (manager_AB (Some 0) cd) 0 zero_v) [1])" for cd
    by (simp only: best_AB fst_conv)
  from getBestTarget_hysteresis
         [OF c [of 197] valid_AB [of "Some 0" 197] dist_AB [symmetric] b [of 197]]
       id s [of 197]
  have x: "getBestTarget EnhancedConfig 1000 zero_v store_AB (manager_AB (Some 0) 197) =
     (Some 0, store_AB, manager_AB (Some 0) 197)"
    by simp
  from getBestTarget_hysteresis
         [OF c [of 0] valid_AB [of "Some 0" 0] dist_AB [symmetric] b [of 0]]
       id s [of 0]
  have y: "getBestTarget EnhancedConfig 1000 zero_v store_AB (manager_AB (Some 0) 0) =
     (Some 1, store_AB, manager_AB (Some 1) 200)"
    by (simp add: manager_AB_def)
  from x y show ?thesis by simp
qed

text \<open>
  How the state of the next example arises: the manager switches from the first target to
  the second at time 1000, which sets the cooldown to 200; a tick of 3 seconds leaves 197;
  the first target is updated at time 2500 and the second is not.
\<close>

lemma stale_state_reached:
  "getBestTarget EnhancedConfig 1000 zero_v store_AB (manager_AB (Some 0) 0) =
     (Some 1, store_AB, manager_AB (Some 1) 200) \<and>
   update_TargetManager (manager_AB (Some 1) 200) 3 = manager_AB (Some 1) 197 \<and>
   updateTarget store_AB (manager_AB (Some 1) 197) 1 zero_v 2500 = store_stale"
proof -
  have v: "isValidTarget EnhancedConfig 1000 (store_AB 0) \<and>
           isValidTarget EnhancedConfig 1000 (store_AB 1)"
    by (simp add: isValidTarget_def EnhancedConfig_def store_AB_def target_A_def
        target_B_def Let_def)
  have i: "t_id (store_AB 0) \<noteq> t_id (store_AB 1)"
    by (simp add: store_AB_def target_A_def target_B_def)
  have t: "targets (manager_AB (Some 0) 0) = [0, 1] \<and>
           currentTarget (manager_AB (Some 0) 0) = Some 0 \<and>
           switchCooldown (manager_AB (Some 0) 0) = 0"
    by (simp add: manager_AB_def)
  have a: "getBestTarget EnhancedConfig 1000 zero_v store_AB (manager_AB (Some 0) 0) =
     (Some 1, store_AB, manager_AB (Some 1) 200)"
    unfolding getBestTarget_def Let_def
    apply (simp only: t list.simps filter.simps v if_True dist_AB best_AB fst_conv
        option.case i)
    apply (simp add: manager_AB_def EnhancedConfig_def)
    done
  have b: "update_TargetManager (manager_AB (Some 1) 200) 3 = manager_AB (Some 1) 197"
    by (simp add: update_TargetManager_def manager_AB_def)
  have c: "updateTarget store_AB (manager_AB (Some 1) 197) 1 zero_v 2500 = store_stale"
    by (rule ext)
       (simp add: updateTarget_def manager_AB_def store_AB_def store_stale_def target_A_def
          target_B_def clone_def zero_v_def)
  from a b c show ?thesis by simp
qed

text \<open>
  C7 as the specification states it lets the only valid entity be returned whatever the
  prior selection and the cooldown are. In \<open>store_stale\<close> at time 3000 the entity at
  reference 0 is the only valid one (the one at reference 1 was last seen 3000 ms ago);
  with the entity at reference 1 as current selection and a cooldown of 197 running,
  \<open>getBestTarget\<close> returns the current selection.
\<close>

theorem getBestTarget_single_valid_counterexample:
  "validTargetsOf EnhancedConfig 3000 store_stale (manager_AB (Some 1) 197) = [0] \<and>
   fst (getBestTarget EnhancedConfig 3000 zero_v store_stale (manager_AB (Some 1) 197)) \<noteq> Some 0"
  by (simp add: valid_stale getBestTarget_def validTargetsOf_def store_stale_def store_AB_def manager_AB_def isValidTarget_def
      EnhancedConfig_def target_A_def target_B_def Let_def updateDistances_def)


text \<open>
  C7, amended: when exactly one entity is valid, \<open>getBestTarget\<close> returns it, whatever
  its score, provided that there is no current selection, or the current selection has
  the same id, or the cooldown is not positive, or instant switch is on. With a current
  selection of another id, a positive cooldown and instant switch off, it returns the
  current selection.
\<close>

theorem getBestTarget_single_valid:
  assumes "validTargetsOf cfg now h m = [r]"
  shows "(currentTarget m = None \<or> (\<exists>c. currentTarget m = Some c \<and> t_id (h c) = t_id (h r)) \<or>
          \<not> switchCooldown m > 0 \<or> instantSwitch cfg \<longrightarrow>
            fst (getBestTarget cfg now cam h m) = Some r) \<and>
         (\<forall>c. currentTarget m = Some c \<and> t_id (h c) \<noteq> t_id (h r) \<and>
               switchCooldown m > 0 \<and> \<not> instantSwitch cfg \<longrightarrow>
            fst (getBestTarget cfg now cam h m) = Some c)"
proof -
  have ne: "targets m \<noteq> []"
    using assms by (auto simp add: validTargetsOf_def)
  have f: "filter (\<lambda>r. isValidTarget cfg now (h r)) (targets m) = [r]"
    using assms by (simp add: validTargetsOf_def)
  show ?thesis
    using ne f unfolding getBestTarget_def
    by (auto simp add: Let_def updateDistances_t_id split: option.splits)
qed

theorem getBestTarget_single_valid_witness:
  "validTargetsOf EnhancedConfig 3000 store_stale (manager_AB None 0) = [0] \<and>
   fst (getBestTarget EnhancedConfig 3000 zero_v store_stale (manager_AB None 0)) = Some 0 \<and>
   validTargetsOf EnhancedConfig 3000 store_stale (manager_AB (Some 1) 197) = [0] \<and>
   fst (getBestTarget EnhancedConfig 3000 zero_v store_stale (manager_AB (Some 1) 197)) = Some 1"
proof -
  have a: "currentTarget (manager_AB None 0) = None"
    by (simp add: manager_AB_def)
  have b: "currentTarget (manager_AB (Some 1) 197) = Some 1 \<and>
           t_id (store_stale 1) \<noteq> t_id (store_stale 0) \<and>
           switchCooldown (manager_AB (Some 1) 197) > 0 \<and> \<not> instantSwitch EnhancedConfig"
    by (simp add: manager_AB_def store_stale_def store_AB_def target_A_def target_B_def EnhancedConfig_def)
  from getBestTarget_single_valid [OF valid_stale [of None 0], of zero_v] a
  have x: "fst (getBestTarget EnhancedConfig 3000 zero_v store_stale (manager_AB None 0)) = Some 0"
    by simp
  from getBestTarget_single_valid [OF valid_stale [of "Some 1" 197], of zero_v] b
  have y: "fst (getBestTarget EnhancedConfig 3000 zero_v store_stale (manager_AB (Some 1) 197)) = Some 1"
    by simp
  from x y valid_stale show ?thesis by simp
qed


section \<open>The motion predictor\<close>

lemma sumVelocity_foldl:
  "sumVelocity acc xs = foldl add acc (computedVelocities xs)"
proof (induction xs arbitrary: acc rule: computedVelocities.induct)
  case (1 a b rest)
  show ?case
  proof (cases "(s_time b - s_time a) / 1000 > 0")
    case True
    have "sumVelocity acc (a # b # rest) = sumVelocity (add acc (pairVelocity a b)) (b # rest)"
      using True unfolding pairVelocity_def by (simp add: Let_def)
    also have "\<dots> = foldl add (add acc (pairVelocity a b)) (computedVelocities (b # rest))"
      by (rule 1)
    also have "\<dots> = foldl add acc (computedVelocities (a # b # rest))"
      using True by simp
    finally show ?thesis .
  next
    case False
    have "sumVelocity acc (a # b # rest) = sumVelocity acc (b # rest)"
      using False by (simp add: Let_def)
    also have "\<dots> = foldl add acc (computedVelocities (b # rest))"
      by (rule 1)
    also have "\<dots> = foldl add acc (computedVelocities (a # b # rest))"
      using False by simp
    finally show ?thesis .
  qed
qed simp_all

lemma computedVelocities_all:
  "xs \<noteq> [] \<Longrightarrow> positiveElapsed xs \<Longrightarrow> length (computedVelocities xs) + 1 = length xs"
  unfolding positiveElapsed_def
  by (induction xs rule: computedVelocities.induct) simp_all

text \<open>
  What \<open>predictPosition\<close> computes on a history of two samples or more: the velocities of
  the pairs with positive elapsed time are summed, and the sum is scaled by one over the
  number of pairs, skipped or not.
\<close>

lemma predictPosition_general:
  assumes "2 \<le> length (positionHistory p)"
  shows "predictPosition p timeAhead =
           add (s_position (last (positionHistory p)))
             (multiply
                (multiply
                   (foldl add zero_v (computedVelocities (slice_last 3 (positionHistory p))))
                   (1 / (real (length (slice_last 3 (positionHistory p))) - 1)))
                timeAhead)"
  using assms by (simp add: predictPosition_def sumVelocity_foldl Let_def)

lemma skipped_pair_divisor:
  "computedVelocities (slice_last 3 (positionHistory repeated_time_samples)) =
     [\<lparr>vx = 4, vy = 0, vz = 0\<rparr>] \<and>
   predictPosition repeated_time_samples 1 = \<lparr>vx = 10, vy = 0, vz = 0\<rparr>"
  by (simp add: repeated_time_samples_def new_TargetPredictor_def predictPosition_def
      slice_last_def Let_def add_def multiply_def subtract_def zero_v_def pairVelocity_def)

text \<open>
  C5 as the specification states it gives, for two samples \<open>(p0,t0)\<close>, \<open>(p1,t1)\<close> with
  \<open>t1 > t0\<close>, the result \<open>p1 + ((p1-p0)/(t1-t0))*timeAhead\<close>. The source divides the
  difference of the timestamps by 1000 first: for \<open>p0 = (0,0,0)\<close> at time 0 and
  \<open>p1 = (1000,0,0)\<close> at time 1000, \<open>predictPosition(1)\<close> is \<open>(2000,0,0)\<close> and the stated
  formula gives \<open>(1001,0,0)\<close>.
\<close>

theorem predictPosition_counterexample:
  "positionHistory two_samples =
     [\<lparr>s_position = zero_v, s_time = 0\<rparr>,
      \<lparr>s_position = \<lparr>vx = 1000, vy = 0, vz = 0\<rparr>, s_time = 1000\<rparr>] \<and>
   predictPosition two_samples 1 \<noteq>
     add \<lparr>vx = 1000, vy = 0, vz = 0\<rparr>
       (multiply
          (multiply (subtract \<lparr>vx = 1000, vy = 0, vz = 0\<rparr> zero_v) (1 / (1000 - 0))) 1)"
  by (simp add: two_samples_def new_TargetPredictor_def predictPosition_def slice_last_def
      Let_def add_def multiply_def subtract_def zero_v_def)

text \<open>
  C5, amended: on a history of at least two samples in which every consecutive pair of
  the last three samples (of the two, when there are only two) has positive elapsed time,
  \<open>predictPosition(timeAhead)\<close> returns \<open>lastPosition + avgVelocity*timeAhead\<close>, where
  \<open>avgVelocity\<close> is the mean of the velocities between consecutive samples among the last
  three and a pair's velocity is its position difference times \<open>1/dt\<close>, \<open>dt\<close> being the
  difference of the timestamps divided by 1000. With exactly two samples, \<open>t1 > t0\<close>, it
  returns \<open>p1 + ((p1-p0) * (1/((t1-t0)/1000))) * timeAhead\<close>.
\<close>

theorem predictPosition_average:
  "(2 \<le> length (positionHistory p) \<and>
    positiveElapsed (slice_last 3 (positionHistory p)) \<longrightarrow>
    predictPosition p timeAhead =
      add (s_position (last (positionHistory p)))
        (multiply (average_v (computedVelocities (slice_last 3 (positionHistory p))))
           timeAhead)) \<and>
   (positionHistory p =
      [\<lparr>s_position = p0, s_time = t0\<rparr>, \<lparr>s_position = p1, s_time = t1\<rparr>] \<and> t1 > t0 \<longrightarrow>
    predictPosition p timeAhead =
      add p1 (multiply (multiply (subtract p1 p0) (1 / ((t1 - t0) / 1000))) timeAhead))"
proof (intro conjI impI)
  assume a: "2 \<le> length (positionHistory p) \<and>
    positiveElapsed (slice_last 3 (positionHistory p))"
  then have n: "slice_last 3 (positionHistory p) \<noteq> []"
    by (auto simp add: slice_last_def)
  from a have e: "positiveElapsed (slice_last 3 (positionHistory p))"
    by simp
  have "length (computedVelocities (slice_last 3 (positionHistory p))) + 1 =
        length (slice_last 3 (positionHistory p))"
    by (rule computedVelocities_all [OF n e])
  then have "real (length (slice_last 3 (positionHistory p))) - 1 =
             real (length (computedVelocities (slice_last 3 (positionHistory p))))"
    by simp
  with a show "predictPosition p timeAhead =
      add (s_position (last (positionHistory p)))
        (multiply (average_v (computedVelocities (slice_last 3 (positionHistory p))))
           timeAhead)"
    by (simp add: predictPosition_general average_v_def)
next
  assume "positionHistory p =
      [\<lparr>s_position = p0, s_time = t0\<rparr>, \<lparr>s_position = p1, s_time = t1\<rparr>] \<and> t1 > t0"
  then show "predictPosition p timeAhead =
      add p1 (multiply (multiply (subtract p1 p0) (1 / ((t1 - t0) / 1000))) timeAhead)"
    by (simp add: predictPosition_def slice_last_def Let_def add_def multiply_def
        subtract_def zero_v_def)
qed

theorem predictPosition_average_witness:
  "computedVelocities (slice_last 3 (positionHistory steady_samples)) =
     [\<lparr>vx = 2, vy = 0, vz = 0\<rparr>, \<lparr>vx = 4, vy = 0, vz = 0\<rparr>] \<and>
   predictPosition steady_samples 1 = \<lparr>vx = 9, vy = 0, vz = 0\<rparr> \<and>
   predictPosition two_samples 1 = \<lparr>vx = 2000, vy = 0, vz = 0\<rparr>"
proof -
  have c: "computedVelocities (slice_last 3 (positionHistory steady_samples)) =
             [\<lparr>vx = 2, vy = 0, vz = 0\<rparr>, \<lparr>vx = 4, vy = 0, vz = 0\<rparr>]"
    by (simp add: steady_samples_def new_TargetPredictor_def slice_last_def pairVelocity_def
        subtract_def multiply_def zero_v_def)
  have l: "length (positionHistory steady_samples) = 4 \<and>
           positiveElapsed (slice_last 3 (positionHistory steady_samples)) \<and>
           s_position (last (positionHistory steady_samples)) = \<lparr>vx = 6, vy = 0, vz = 0\<rparr>"
    by (simp add: steady_samples_def new_TargetPredictor_def slice_last_def
        positiveElapsed_def)
  from predictPosition_average [of steady_samples 1] c l
  have "predictPosition steady_samples 1 =
          add \<lparr>vx = 6, vy = 0, vz = 0\<rparr>
            (multiply (average_v [\<lparr>vx = 2, vy = 0, vz = 0\<rparr>, \<lparr>vx = 4, vy = 0, vz = 0\<rparr>]) 1)"
    by simp
  then have a: "predictPosition steady_samples 1 = \<lparr>vx = 9, vy = 0, vz = 0\<rparr>"
    by (simp add: average_v_def add_def multiply_def zero_v_def)
  have h: "positionHistory two_samples =
             [\<lparr>s_position = zero_v, s_time = 0\<rparr>,
              \<lparr>s_position = \<lparr>vx = 1000, vy = 0, vz = 0\<rparr>, s_time = 1000\<rparr>]"
    by (simp add: two_samples_def new_TargetPredictor_def)
  from predictPosition_average
         [of two_samples 1 zero_v 0 "\<lparr>vx = 1000, vy = 0, vz = 0\<rparr>" 1000] h
  have "predictPosition two_samples 1 =
          add \<lparr>vx = 1000, vy = 0, vz = 0\<rparr>
            (multiply
               (multiply (subtract \<lparr>vx = 1000, vy = 0, vz = 0\<rparr> zero_v)
                  (1 / ((1000 - 0) / 1000))) 1)"
    by simp
  then have b: "predictPosition two_samples 1 = \<lparr>vx = 2000, vy = 0, vz = 0\<rparr>"
    by (simp add: add_def multiply_def subtract_def zero_v_def)
  from a b c show ?thesis by simp
qed

section \<open>The trigger\<close>

text \<open>
  C6: a \<open>fire\<close> call made while less than \<open>fireRate\<close> has passed since the last fire
  returns \<open>false\<close> and leaves the whole trigger, the time of the last fire included, as it
  was; so does a call whose target is beyond \<open>maxFireDistance\<close> or whose alignment
  quality is below \<open>minAccuracy\<close>.
\<close>

theorem fire_gated:
  "nowCan - lastFireTime a < fireRate cfg \<or> distance tgt > maxFireDistance cfg \<or>
   q < minAccuracy cfg \<longrightarrow>
     fire cfg a tgt q nowCan nowFire rnd = (False, a)"
  by (auto simp add: fire_def canFire_def)

theorem fire_gated_witness:
  "(1000::real) - lastFireTime af_recent < fireRate EnhancedConfig \<and>
   fire EnhancedConfig af_recent target_A 1 1000 1001 0 =
     (False, \<lparr>lastFireTime = 990, consecutiveHits = 1, accuracy = 1 / 10\<rparr>)"
proof -
  have h: "(1000::real) - lastFireTime af_recent < fireRate EnhancedConfig"
    by (simp add: af_recent_def EnhancedConfig_def)
  from fire_gated [of 1000 af_recent EnhancedConfig target_A 1 1001 0] h
  show ?thesis by (simp add: af_recent_def)
qed

section \<open>The control loop\<close>

lemma trackTarget_frame:
  "totalShots (trackTarget cfg env r ct dt e) = totalShots e \<and>
   totalHits (trackTarget cfg env r ct dt e) = totalHits e \<and>
   autoFire (trackTarget cfg env r ct dt e) = autoFire e \<and>
   objects (trackTarget cfg env r ct dt e) = objects e"
  by (simp add: trackTarget_def Let_def)

lemma autoFireLogic_frame:
  "currentAccuracy (autoFireLogic cfg env r e) = currentAccuracy e \<and>
   lockDuration (autoFireLogic cfg env r e) = lockDuration e \<and>
   objects (autoFireLogic cfg env r e) = objects e"
  by (simp add: autoFireLogic_def Let_def)

lemma autoFireLogic_counters:
  assumes "fireOnLock cfg" and "lockDuration e > minLockTime cfg"
  shows "totalShots (autoFireLogic cfg env r e) =
           (if fst (fire cfg (autoFire e) (objects e r) (currentAccuracy e)
                      (tCanFire env) (tFire env) (random env))
            then totalShots e + 1 else totalShots e) \<and>
         totalHits (autoFireLogic cfg env r e) =
           (if fst (fire cfg (autoFire e) (objects e r) (currentAccuracy e)
                      (tCanFire env) (tFire env) (random env)) \<and> currentAccuracy e > 9 / 10
            then totalHits e + 1 else totalHits e)"
  using assms by (simp add: autoFireLogic_def Let_def)

lemma getHitRate_Some: "\<exists>rate. getHitRate e = Some rate"
  by (simp add: getHitRate_def js_divide_def)

lemma updateAimLock_total: "\<exists>e'. updateAimLock cfg env e = Some e'"
proof -
  have "\<exists>y. (case getHitRate x of None \<Rightarrow> None | Some rate \<Rightarrow> Some (f rate)) = Some y" for x :: EnhancedAimLockEngine and f :: "number \<Rightarrow> EnhancedAimLockEngine"
    using getHitRate_Some [of x] by auto
  then show ?thesis
    unfolding updateAimLock_def Let_def
    by (simp split: option.split)
qed

lemma updateAimLock_fields:
  assumes t: "updateAimLock cfg env e = Some e'" and s: "selected cfg env e = Some r"
  shows "totalShots e' = totalShots (autoFireLogic cfg env r (beforeFire cfg env r e)) \<and>
         totalHits e' = totalHits (autoFireLogic cfg env r (beforeFire cfg env r e)) \<and>
         currentAccuracy e' = currentAccuracy (beforeFire cfg env r e) \<and>
         lockDuration e' = lockDuration (beforeFire cfg env r e) \<and>
         objects e' = objects (beforeFire cfg env r e)"
  using t s unfolding updateAimLock_def selected_def beforeFire_def Let_def
  by (auto simp add: autoFireLogic_frame split: option.splits)

lemma sel0:
  "getBestTarget EnhancedConfig 1000 zero_v (\<lambda>_. target_A)
     (new_EnhancedTargetManager\<lparr>targets := [0]\<rparr>) =
   (Some 0, (\<lambda>_. target_A), new_EnhancedTargetManager\<lparr>targets := [0], currentTarget := Some 0\<rparr>)"
proof -
  have d: "updateDistances zero_v [0] (\<lambda>_. target_A) = (\<lambda>_. target_A)"
    by (rule ext) (simp add: updateDistances_def target_A_def distanceTo_def zero_v_def)
  have v: "isValidTarget EnhancedConfig 1000 target_A"
    by (simp add: isValidTarget_def EnhancedConfig_def target_A_def Let_def)
  show ?thesis
    unfolding getBestTarget_def
    by (simp add: new_EnhancedTargetManager_def v d Let_def)
qed

lemma selected0: "selected EnhancedConfig env0 (engine_with af) = Some 0"
  by (simp add: selected_def engine_with_def engine0_def env0_def sel0)

lemma beforeFire0:
  "lockDuration (beforeFire EnhancedConfig env0 0 (engine_with af)) = 1 \<and>
   currentAccuracy (beforeFire EnhancedConfig env0 0 (engine_with af)) = 1 \<and>
   objects (beforeFire EnhancedConfig env0 0 (engine_with af)) 0 = target_A"
proof -
  have k: "update kf_fresh 0 1000 = (0, kf_fresh\<lparr>state := (0, 0), isInitialized := True, kf_lastTime := 1000\<rparr>)"
    by (simp add: update_def kf_fresh_def new_AdvancedKalmanFilter_def)
  have p: "predictPosition (addPosition new_TargetPredictor zero_v 1000) t = zero_v" for t
    by (simp add: predictPosition_def addPosition_def new_TargetPredictor_def clone_def zero_v_def Let_def)
  have l: "lerp zero_v zero_v t = zero_v" for t
    by (simp add: lerp_def add_def multiply_def subtract_def zero_v_def)
  have a: "applyDragLock EnhancedConfig dl_fresh zero_v zero_v 1 = (zero_v, dl_fresh)"
    by (simp add: applyDragLock_def EnhancedConfig_def dl_fresh_def new_EnhancedDragLock_def
        zero_v_def length_v_def subtract_def lerp_def add_def multiply_def Let_def)
  have e: "distanceTo zero_v zero_v = 0"
    by (simp add: distanceTo_def zero_v_def)
  have tp: "t_position target_A = zero_v \<and> vx zero_v = 0 \<and> vy zero_v = 0 \<and> vz zero_v = 0"
    by (simp add: target_A_def zero_v_def)
  have z: "\<lparr>vx = 0, vy = 0, vz = 0\<rparr> = zero_v"
    by (simp add: zero_v_def)
  have c: "snapThreshold EnhancedConfig = 14 / 10000 \<and> predictionWeight EnhancedConfig = 3 / 10 \<and>
           maxPredictionTime EnhancedConfig = 150"
    by (simp add: EnhancedConfig_def)
  have dt: "distance target_A = 0"
    by (simp add: target_A_def)
  show ?thesis
    unfolding beforeFire_def trackTarget_def
    by (simp add: engine_with_def engine0_def env0_def sel0 Let_def tp k z p l a e clone_def
        setPosition_def c dt)
qed


lemma tick0_state:
  assumes t: "updateAimLock EnhancedConfig env0 (engine_with af) = Some e'"
  shows "lockDuration e' = 1 \<and> currentAccuracy e' = 1 \<and> objects e' 0 = target_A"
  using updateAimLock_fields [OF t selected0] beforeFire0 [of af] by simp

lemma tick0_counters:
  assumes t: "updateAimLock EnhancedConfig env0 (engine_with af) = Some e'"
  shows "totalShots e' =
           (if fst (fire EnhancedConfig af target_A 1 1000 1000 (1 / 2)) then 1 else 0) \<and>
         totalHits e' =
           (if fst (fire EnhancedConfig af target_A 1 1000 1000 (1 / 2)) then 1 else 0)"
proof -
  note u = updateAimLock_fields [OF t selected0]
  note b = beforeFire0 [of af]
  have f: "fireOnLock EnhancedConfig"
    by (simp add: EnhancedConfig_def)
  have l: "lockDuration (beforeFire EnhancedConfig env0 0 (engine_with af)) >
             minLockTime EnhancedConfig"
    using b by (simp add: EnhancedConfig_def)
  have i: "autoFire (beforeFire EnhancedConfig env0 0 (engine_with af)) = af \<and>
           totalShots (beforeFire EnhancedConfig env0 0 (engine_with af)) = 0 \<and>
           totalHits (beforeFire EnhancedConfig env0 0 (engine_with af)) = 0"
    by (simp add: beforeFire_def Let_def trackTarget_frame engine_with_def engine0_def)
  have r: "tCanFire env0 = 1000 \<and> tFire env0 = 1000 \<and> random env0 = 1 / 2"
    by (simp add: env0_def)
  from autoFireLogic_counters [OF f l, of env0 0] u b i r show ?thesis
    by simp
qed

lemma fire_new: "fire EnhancedConfig new_SmartAutoFire target_A 1 1000 1000 (1 / 2) =
                   (True, \<lparr>lastFireTime = 1000, consecutiveHits = 1, accuracy = 10\<rparr>)"
  by (simp add: fire_def canFire_def EnhancedConfig_def new_SmartAutoFire_def target_A_def Let_def)

lemma fire_recent: "fire EnhancedConfig af_recent target_A 1 1000 1000 (1 / 2) = (False, af_recent)"
  by (simp add: fire_def canFire_def EnhancedConfig_def af_recent_def target_A_def Let_def)

lemma fire_adapted: "fire EnhancedConfig af_adapted target_A 1 1000 1000 (1 / 2) =
                   (False, \<lparr>lastFireTime = 1000, consecutiveHits = 0, accuracy = 1 / 10\<rparr>)"
  by (simp add: fire_def canFire_def EnhancedConfig_def af_adapted_def target_A_def Let_def)

text \<open>
  C8 as the specification states it increments the shot counter whenever \<open>fire\<close> is
  invoked. In the tick \<open>env0\<close> of the engine whose trigger fired at time 990, fire-on-lock
  is on and the lock duration, 1, is above \<open>minLockTime\<close>, so \<open>fire\<close> is invoked at time
  1000; it returns \<open>false\<close> and \<open>totalShots\<close> stays 0.
\<close>

theorem updateAimLock_counters_counterexample:
  "fireOnLock EnhancedConfig \<and>
   selected EnhancedConfig env0 (engine_with af_recent) = Some 0 \<and>
   map_option lockDuration (updateAimLock EnhancedConfig env0 (engine_with af_recent)) =
     Some 1 \<and>
   minLockTime EnhancedConfig < 1 \<and>
   totalShots (engine_with af_recent) = 0 \<and>
   map_option totalShots (updateAimLock EnhancedConfig env0 (engine_with af_recent)) =
     Some 0"
proof -
  obtain e' where t: "updateAimLock EnhancedConfig env0 (engine_with af_recent) = Some e'"
    using updateAimLock_total by blast
  from tick0_state [OF t] tick0_counters [OF t]
  have "lockDuration e' = 1 \<and> totalShots e' = 0"
    by (simp add: fire_recent)
  with t selected0 show ?thesis
    by (simp add: EnhancedConfig_def engine_with_def engine0_def)
qed

text \<open>
  A call of \<open>fire\<close> that passes the gate and misses stamps the time of the fire and
  returns \<open>false\<close> as well: the engine does not count that shot either.
\<close>

lemma missed_shot_not_counted:
  "canFire EnhancedConfig af_adapted (distance target_A) 1 1000 \<and>
   map_option totalShots (updateAimLock EnhancedConfig env0 (engine_with af_adapted)) =
     Some 0"
proof -
  obtain e' where t: "updateAimLock EnhancedConfig env0 (engine_with af_adapted) = Some e'"
    using updateAimLock_total by blast
  from tick0_counters [OF t] have "totalShots e' = 0"
    by (simp add: fire_adapted)
  with t show ?thesis
    by (simp add: canFire_def EnhancedConfig_def af_adapted_def target_A_def Let_def)
qed

text \<open>
  C8, amended: on a tick that selects a target, with fire-on-lock enabled and the lock
  duration above \<open>minLockTime\<close>, so that \<open>fire\<close> is invoked: when \<open>fire\<close> returns
  \<open>true\<close>, the shot counter is incremented by one and the hit counter is incremented
  exactly when the alignment quality exceeds 0.9; when the gate \<open>canFire\<close> refuses the
  call, both counters keep their values.
\<close>

theorem updateAimLock_counters:
  assumes t: "updateAimLock cfg env e = Some e'"
    and s: "selected cfg env e = Some r"
    and f: "fireOnLock cfg"
    and l: "lockDuration e' > minLockTime cfg"
  shows "(fst (fire cfg (autoFire e) (objects e' r) (currentAccuracy e')
                 (tCanFire env) (tFire env) (random env)) \<longrightarrow>
            totalShots e' = totalShots e + 1 \<and>
            totalHits e' = (if currentAccuracy e' > 9 / 10 then totalHits e + 1 else totalHits e)) \<and>
         (\<not> canFire cfg (autoFire e) (distance (objects e' r)) (currentAccuracy e') (tCanFire env) \<longrightarrow>
            totalShots e' = totalShots e \<and> totalHits e' = totalHits e)"
proof -
  let ?b = "beforeFire cfg env r e"
  note u = updateAimLock_fields [OF t s]
  have b: "totalShots ?b = totalShots e \<and> totalHits ?b = totalHits e \<and> autoFire ?b = autoFire e"
    by (simp add: beforeFire_def Let_def trackTarget_frame)
  from l u have l': "lockDuration ?b > minLockTime cfg" by simp
  note c = autoFireLogic_counters [OF f l', of env r]
  have g: "\<not> canFire cfg (autoFire e) (distance (objects e' r)) (currentAccuracy e') (tCanFire env) \<Longrightarrow>
           \<not> fst (fire cfg (autoFire e) (objects e' r) (currentAccuracy e') (tCanFire env) (tFire env) (random env))"
    by (simp add: fire_def)
  from u b c g show ?thesis by auto
qed


theorem updateAimLock_counters_witness:
  "map_option totalShots (updateAimLock EnhancedConfig env0 (engine_with new_SmartAutoFire)) =
     Some 1 \<and>
   map_option totalHits (updateAimLock EnhancedConfig env0 (engine_with new_SmartAutoFire)) =
     Some 1 \<and>
   map_option totalShots (updateAimLock EnhancedConfig env0 (engine_with af_recent)) =
     Some 0 \<and>
   map_option totalHits (updateAimLock EnhancedConfig env0 (engine_with af_recent)) =
     Some 0"
proof -
  have f: "fireOnLock EnhancedConfig"
    by (simp add: EnhancedConfig_def)
  have z: "totalShots (engine_with af) = 0 \<and> totalHits (engine_with af) = 0 \<and>
           autoFire (engine_with af) = af" for af
    by (simp add: engine_with_def engine0_def)
  have r: "tCanFire env0 = 1000 \<and> tFire env0 = 1000 \<and> random env0 = 1 / 2"
    by (simp add: env0_def)
  obtain e1 where
    t1: "updateAimLock EnhancedConfig env0 (engine_with new_SmartAutoFire) = Some e1"
    using updateAimLock_total by blast
  from tick0_state [OF t1] have l1: "lockDuration e1 > minLockTime EnhancedConfig"
    by (simp add: EnhancedConfig_def)
  from updateAimLock_counters [OF t1 selected0 f l1] tick0_state [OF t1]
    z [of new_SmartAutoFire] r
  have a: "totalShots e1 = 1 \<and> totalHits e1 = 1"
    by (simp add: fire_new)
  obtain e2 where t2: "updateAimLock EnhancedConfig env0 (engine_with af_recent) = Some e2"
    using updateAimLock_total by blast
  from tick0_state [OF t2] have l2: "lockDuration e2 > minLockTime EnhancedConfig"
    by (simp add: EnhancedConfig_def)
  have g: "\<not> canFire EnhancedConfig af_recent (distance target_A) 1 1000"
    by (simp add: canFire_def EnhancedConfig_def af_recent_def Let_def)
  from updateAimLock_counters [OF t2 selected0 f l2] tick0_state [OF t2] z [of af_recent] r g
  have b: "totalShots e2 = 0 \<and> totalHits e2 = 0"
    by simp
  from a b t1 t2 show ?thesis by simp
qed

section \<open>The engine's hit rate\<close>

text \<open>
  C9: \<open>getHitRate\<close> divides only by a positive \<open>totalShots\<close>. It returns
  \<open>totalHits / totalShots\<close> when \<open>totalShots > 0\<close> and 0 when \<open>totalShots = 0\<close>, and in
  every engine state its value is a finite number.
\<close>

theorem getHitRate_finite:
  "(totalShots e > 0 \<longrightarrow> getHitRate e = Some (totalHits e / totalShots e)) \<and>
   (totalShots e = 0 \<longrightarrow> getHitRate e = Some 0) \<and>
   (\<exists>rate. getHitRate e = Some rate)"
  by (simp add: getHitRate_def js_divide_def)

theorem getHitRate_finite_witness:
  "getHitRate (engine0\<lparr>totalShots := 4, totalHits := 3\<rparr>) = Some (3 / 4) \<and>
   getHitRate engine0 = Some 0"
proof -
  have a: "totalShots (engine0\<lparr>totalShots := 4, totalHits := 3\<rparr>) > 0"
    by simp
  have b: "totalShots engine0 = 0"
    by (simp add: engine0_def)
  from getHitRate_finite [of "engine0\<lparr>totalShots := 4, totalHits := 3\<rparr>"] a
  have "getHitRate (engine0\<lparr>totalShots := 4, totalHits := 3\<rparr>) = Some (3 / 4)"
    by simp
  moreover from getHitRate_finite [of engine0] b
  have "getHitRate engine0 = Some 0"
    by simp
  ultimately show ?thesis by simp
qed

end
